theory Spec2Isabelle
  imports Complex_Main "HOL-Library.Sublist"
begin

section \<open>Exceptions and paths\<close>

text \<open>
  Python exceptions as values. \<open>PlottingError m\<close> is the program's own domain error with
  its \<open>message\<close> attribute; \<open>Exception d\<close> is any other instance of \<open>Exception\<close>
  (\<open>d\<close> is what \<open>print(err)\<close> shows); \<open>BaseException d\<close> is an exception that
  does not derive from \<open>Exception\<close> (\<open>KeyboardInterrupt\<close>, \<open>SystemExit\<close>).
  A computation that may raise returns \<open>py_exception + 'a\<close>, \<open>Inl\<close> being the raise.
\<close>

datatype py_exception = PlottingError string | Exception string | BaseException string

text \<open>\<open>try: body except: handler\<close> with a bare \<open>except\<close>: every raise is handled.\<close>

definition try_except :: "py_exception + 'a \<Rightarrow> (py_exception \<Rightarrow> py_exception + 'a) \<Rightarrow> py_exception + 'a" where
  "try_except body handler = (case body of Inl e \<Rightarrow> handler e | Inr v \<Rightarrow> Inr v)"

text \<open>
  \<open>str.rfind\<close> for a one-character needle: the highest index holding the character,
  or \<open>-1\<close>.
\<close>

definition rfind :: "string \<Rightarrow> char \<Rightarrow> int" where
  "rfind p c = fold (\<lambda>(i, x) r. if x = c then int i else r) (enumerate 0 p) (- 1)"

text \<open>The slices \<open>p[:i]\<close> and \<open>p[i:]\<close> for \<open>i \<ge> 0\<close>.\<close>

definition slice_to :: "string \<Rightarrow> int \<Rightarrow> string" where
  "slice_to p i = take (nat i) p"

definition slice_from :: "string \<Rightarrow> int \<Rightarrow> string" where
  "slice_from p i = drop (nat i) p"

text \<open>
  \<open>os.path.splitext\<close> (the POSIX flavour, separator \<open>/\<close>, no alternative separator).
  The loop of the library function skips the leading dots of the last path component:
  \<^verbatim>\<open>
    while filenameIndex < dotIndex:
        if p[filenameIndex:filenameIndex+1] != extsep:
            return p[:dotIndex], p[dotIndex:]
        filenameIndex += 1
    return p, p[:0]
  \<close>
\<close>

function splitext_loop :: "string \<Rightarrow> int \<Rightarrow> int \<Rightarrow> string \<times> string" where
  "splitext_loop p filenameIndex dotIndex =
     (if filenameIndex < dotIndex then
        (if slice_to (slice_from p filenameIndex) 1 \<noteq> ''.''
         then (slice_to p dotIndex, slice_from p dotIndex)
         else splitext_loop p (filenameIndex + 1) dotIndex)
      else (p, ''''))"
  by pat_completeness auto
termination
  by (relation "measure (\<lambda>(p, i, d). nat (d - i))") auto

definition splitext :: "string \<Rightarrow> string \<times> string" where
  "splitext p =
     (let sepIndex = rfind p (CHR ''/'');
          dotIndex = rfind p (CHR ''.'')
      in if dotIndex > sepIndex then splitext_loop p (sepIndex + 1) dotIndex
         else (p, ''''))"

text \<open>\<open>str.rstrip\<close> with a one-character argument: the trailing copies are removed.\<close>

definition rstrip :: "string \<Rightarrow> char \<Rightarrow> string" where
  "rstrip s c = rev (dropWhile (\<lambda>x. x = c) (rev s))"

text \<open>
  \<open>os.path.dirname\<close> (POSIX): everything up to the last separator, trailing separators
  stripped unless the head consists of separators only.
\<close>

definition dirname :: "string \<Rightarrow> string" where
  "dirname p =
     (let i = rfind p (CHR ''/'') + 1;
          head = slice_to p i
      in if head \<noteq> '''' \<and> head \<noteq> replicate (length head) (CHR ''/'')
         then rstrip head (CHR ''/'') else head)"

text \<open>\<open>str.lower\<close> on ASCII text.\<close>

definition lower :: "string \<Rightarrow> string" where
  "lower s =
     map (\<lambda>c. case map_of (zip ''ABCDEFGHIJKLMNOPQRSTUVWXYZ'' ''abcdefghijklmnopqrstuvwxyz'') c of
                None \<Rightarrow> c
              | Some l \<Rightarrow> l) s"

section \<open>Data extraction\<close>

text \<open>
  A coded point is \<open>[distance, elevation, code]\<close>. The number type \<open>'f\<close> stands for
  Python's \<open>float\<close>; nothing below computes with it.
\<close>

type_synonym 'f coded_point = "'f \<times> 'f \<times> string"

text \<open>
  What lies outside the program: \<open>float_of\<close> is the builtin \<open>float\<close> on a string
  (\<open>None\<close> where it raises \<open>ValueError\<close>); \<open>open_csv\<close> is \<open>open\<close>, \<open>csv.reader\<close> and
  \<open>list\<close> together, the rows of the file as lists of fields, or the exception raised;
  \<open>open_xls\<close> is the first sheet of the workbook read by \<open>xlrd\<close>, all rows with their
  cell values, or the exception raised.
\<close>

record 'f env =
  float_of :: "string \<Rightarrow> 'f option"
  open_csv :: "string \<Rightarrow> py_exception + string list list"
  open_xls :: "string \<Rightarrow> py_exception + 'f coded_point list"

text \<open>
  One step of \<open>[[float(x), float(y), code] for (x,y,code) in data]\<close>: the unpacking
  raises \<open>ValueError\<close> unless the row has exactly three fields, then \<open>float\<close> may raise.
\<close>

fun convert_row :: "(string \<Rightarrow> 'f option) \<Rightarrow> string list \<Rightarrow> py_exception + 'f coded_point" where
  "convert_row pf [x, y, code] =
     (case pf x of
        None \<Rightarrow> Inl (Exception ''ValueError'')
      | Some a \<Rightarrow>
          (case pf y of
             None \<Rightarrow> Inl (Exception ''ValueError'')
           | Some b \<Rightarrow> Inr (a, b, code)))"
| "convert_row pf row = Inl (Exception ''ValueError'')"

text \<open>
  A list comprehension \<open>[f(x) for x in xs]\<close> whose element expression may raise: the
  elements are computed from left to right and the first raise ends the comprehension.
\<close>

fun map_raise :: "('a \<Rightarrow> py_exception + 'b) \<Rightarrow> 'a list \<Rightarrow> py_exception + 'b list" where
  "map_raise f [] = Inr []"
| "map_raise f (x # xs) =
     (case f x of
        Inl e \<Rightarrow> Inl e
      | Inr y \<Rightarrow>
          (case map_raise f xs of
             Inl e \<Rightarrow> Inl e
           | Inr ys \<Rightarrow> Inr (y # ys)))"

definition read_file_csv :: "'f env \<Rightarrow> string \<Rightarrow> py_exception + 'f coded_point list" where
  "read_file_csv env filename =
     try_except
       (case open_csv env filename of
          Inl e \<Rightarrow> Inl e
        | Inr data \<Rightarrow> map_raise (convert_row (float_of env)) (drop 1 data))
       (\<lambda>e. Inl (PlottingError (''Could not read file: '' @ filename)))"

text \<open>The loop over \<open>range(1, sheet.nrows)\<close> keeps every row but the first.\<close>

definition read_file_xls :: "'f env \<Rightarrow> string \<Rightarrow> py_exception + 'f coded_point list" where
  "read_file_xls env filename =
     (case open_xls env filename of
        Inl e \<Rightarrow> Inl e
      | Inr rows \<Rightarrow> Inr (drop 1 rows))"

definition read_file :: "'f env \<Rightarrow> string \<Rightarrow> py_exception + 'f coded_point list" where
  "read_file env filename =
     (let extension = snd (splitext filename)
      in try_except
           (if extension = ''.csv'' then read_file_csv env filename
            else if extension = ''.xls'' then read_file_xls env filename
            else Inl (PlottingError (''Filetype: '' @ extension @ '' is not supported'')))
           (\<lambda>e. Inl (PlottingError (''Could not read file: '' @ filename))))"

section \<open>Series\<close>

text \<open>
  \<open>itertools.groupby\<close>, every group expanded into a list: a group is the longest prefix
  of what is left whose keys equal the key of its first element.
\<close>

function groupby :: "('a \<Rightarrow> 'k) \<Rightarrow> 'a list \<Rightarrow> ('k \<times> 'a list) list" where
  "groupby key [] = []"
| "groupby key (x # xs) =
     (key x, x # takeWhile (\<lambda>y. key y = key x) xs)
       # groupby key (dropWhile (\<lambda>y. key y = key x) xs)"
  by pat_completeness auto
termination
  by (relation "measure (\<lambda>(key, xs). length xs)")
     (auto simp: length_dropWhile_le less_Suc_eq_le)

definition make_series :: "'f coded_point list \<Rightarrow> (string \<times> ('f \<times> 'f) list) list" where
  "make_series data =
     map (\<lambda>(code, grp). (code, map (\<lambda>(x, y, c). (x, y)) grp))
         (groupby (\<lambda>(x, y, c). c) data)"

text \<open>
  The number of maximal runs of adjacent equal elements, counted from the list alone:
  one run for the first element, one more at each element that differs from the one
  before it.
\<close>

fun num_runs :: "'c list \<Rightarrow> nat" where
  "num_runs [] = 0"
| "num_runs [c] = 1"
| "num_runs (c # d # cs) = (if c = d then num_runs (d # cs) else Suc (num_runs (d # cs)))"

section \<open>The colour registry\<close>

text \<open>
  \<open>collections.OrderedDict(colors)\<close> built from a list of pairs: the pairs are stored one
  after the other; a key seen again keeps its place and takes the new value.
\<close>

fun od_setitem :: "('k \<times> 'v) list \<Rightarrow> 'k \<Rightarrow> 'v \<Rightarrow> ('k \<times> 'v) list" where
  "od_setitem [] k v = [(k, v)]"
| "od_setitem ((k', v') # d) k v =
     (if k' = k then (k, v) # d else (k', v') # od_setitem d k v)"

definition OrderedDict :: "('k \<times> 'v) list \<Rightarrow> ('k \<times> 'v) list" where
  "OrderedDict colors = fold (\<lambda>(k, v) d. od_setitem d k v) colors []"

text \<open>The class \<open>Colors\<close>: the fields \<open>_colors\<close> and \<open>_keys\<close>.\<close>

record 'v Colors =
  Colors_colors :: "(string \<times> 'v) list"
  Colors_keys :: "string list"

definition Colors_init :: "(string \<times> 'v) list \<Rightarrow> 'v Colors" where
  "Colors_init colors =
     (let d = OrderedDict colors
      in \<lparr>Colors_colors = d, Colors_keys = map fst d\<rparr>)"

definition Colors_error_message :: "string \<Rightarrow> string" where
  "Colors_error_message code =
     ''Could not find code: '' @ code @ '', you may need to add it to ''
       @ [CHR 0x27] @ ''code_colors'' @ [CHR 0x27]"

definition Colors_error :: "string \<Rightarrow> py_exception + 'a" where
  "Colors_error code = Inl (PlottingError (Colors_error_message code))"

text \<open>\<open>d[code]\<close> on a dictionary raises \<open>KeyError\<close> for a missing key.\<close>

definition dict_getitem :: "('k \<times> 'v) list \<Rightarrow> 'k \<Rightarrow> py_exception + 'v" where
  "dict_getitem d k = (case map_of d k of None \<Rightarrow> Inl (Exception ''KeyError'') | Some v \<Rightarrow> Inr v)"

text \<open>\<open>tuple.index\<close>: the first position holding the value, \<open>ValueError\<close> if there is none.\<close>

fun tuple_index :: "'a list \<Rightarrow> 'a \<Rightarrow> py_exception + nat" where
  "tuple_index [] x = Inl (Exception ''ValueError'')"
| "tuple_index (y # ys) x =
     (if y = x then Inr 0
      else (case tuple_index ys x of Inl e \<Rightarrow> Inl e | Inr i \<Rightarrow> Inr (Suc i)))"

definition Colors_getitem :: "'v Colors \<Rightarrow> string \<Rightarrow> py_exception + 'v" where
  "Colors_getitem self code =
     try_except (dict_getitem (Colors_colors self) code) (\<lambda>e. Colors_error code)"

definition Colors_index :: "'v Colors \<Rightarrow> string \<Rightarrow> py_exception + nat" where
  "Colors_index self code =
     try_except (tuple_index (Colors_keys self) code) (\<lambda>e. Colors_error code)"

text \<open>
  The configured table. The source divides each component by \<open>255.\<close>; the quotient is
  taken in the reals here.
\<close>

definition code_colors_table :: "(string \<times> nat \<times> nat \<times> nat) list" where
  "code_colors_table =
     [(''Q1ta'', (130, 130, 130)),
      (''Q3a'', (130, 130, 130)),
      (''Q7u'', (43, 133, 161)),
      (''Q8i'', (194, 158, 215)),
      (''Q8c'', (255, 207, 255)),
      (''Q9w'', (79, 122, 56)),
      (''eQw'', (255, 127, 127))]"

definition code_colors :: "real list Colors" where
  "code_colors =
     Colors_init (map (\<lambda>(code, (r, g, b)). (code, [real r / 255, real g / 255, real b / 255]))
                      code_colors_table)"

definition x_axis_label :: string where
  "x_axis_label = ''Distance, East-West (m)''"

definition y_axis_label :: string where
  "y_axis_label = ''Elevation (m)''"

definition x_min :: int where
  "x_min = 0"

definition x_max :: int where
  "x_max = 20250"

definition y_min :: int where
  "y_min = 120"

definition y_max :: int where
  "y_max = 530"

section \<open>Plotting\<close>

text \<open>
  The charting library is outside the program. Its calls are recorded in the order the
  program makes them: the axis limits, one line per \<open>plt.plot\<close>, the arguments of
  \<open>ax.legend\<close>, the axis labels, and in \<open>savefig\<close> the path of the file that
  \<open>plt.savefig\<close> wrote, if it was called.
\<close>

record ('f, 'v) line2d =
  x_data :: "'f list"
  y_data :: "'f list"
  color :: 'v

record 'v legend_args =
  custom_lines :: "'v list"
  labels :: "string list"
  loc :: string

record ('f, 'v) figure =
  xlim :: "int \<times> int"
  ylim :: "int \<times> int"
  plotted :: "('f, 'v) line2d list"
  legend :: "'v legend_args"
  xlabel :: string
  ylabel :: string
  savefig :: "string option"

text \<open>
  \<open>x_data, y_data = zip(*data)\<close>: with no point \<open>zip()\<close> yields nothing and the
  unpacking into two names raises \<open>ValueError\<close>.
\<close>

definition unzip_points :: "('f \<times> 'f) list \<Rightarrow> py_exception + ('f list \<times> 'f list)" where
  "unzip_points data =
     (if data = [] then Inl (Exception ''ValueError'')
      else Inr (map fst data, map snd data))"

definition plot_series :: "'v Colors \<Rightarrow> string \<times> ('f \<times> 'f) list \<Rightarrow> py_exception + ('f, 'v) line2d" where
  "plot_series cc series =
     (case series of (code, data) \<Rightarrow>
        (case Colors_getitem cc code of
           Inl e \<Rightarrow> Inl e
         | Inr col \<Rightarrow>
             (case unzip_points data of
                Inl e \<Rightarrow> Inl e
              | Inr (xs, ys) \<Rightarrow> Inr \<lparr>x_data = xs, y_data = ys, color = col\<rparr>)))"

text \<open>
  \<open>sorted(xs, key=f)\<close>: the key of every element is computed first, from left to right;
  the sort is stable.
\<close>

definition sorted_by_key :: "('a \<Rightarrow> py_exception + nat) \<Rightarrow> 'a list \<Rightarrow> py_exception + 'a list" where
  "sorted_by_key f xs =
     (case map_raise f xs of
        Inl e \<Rightarrow> Inl e
      | Inr ks \<Rightarrow> Inr (map snd (sort_key fst (zip ks xs))))"

text \<open>
  \<open>set_iter\<close> is the order in which Python iterates over \<open>set(xs)\<close>: the distinct
  elements of \<open>xs\<close> in an order the language does not fix.
\<close>

definition make_legend ::
  "(string list \<Rightarrow> string list) \<Rightarrow> 'v Colors \<Rightarrow> (string \<times> ('f \<times> 'f) list) list \<Rightarrow> string
     \<Rightarrow> py_exception + 'v legend_args" where
  "make_legend set_iter cc data_series location =
     (let unique_codes = set_iter (map fst data_series)
      in case sorted_by_key (Colors_index cc) unique_codes of
           Inl e \<Rightarrow> Inl e
         | Inr unique_codes \<Rightarrow>
             (case map_raise (Colors_getitem cc) unique_codes of
                Inl e \<Rightarrow> Inl e
              | Inr lines \<Rightarrow>
                  Inr \<lparr>custom_lines = lines, labels = unique_codes, loc = location\<rparr>))"

text \<open>
  \<open>plt.savefig(fname)\<close> with no \<open>format\<close> argument, as the library resolves the file
  name: the format is the extension of \<open>fname\<close> without its dot; with no extension the
  format is the default \<open>png\<close> and \<open>.png\<close> is appended to \<open>fname\<close> stripped of trailing
  dots; a format that is not a file type of the library, compared in lower case, raises
  \<open>ValueError\<close> and nothing is written. The result is the path of the file written.
\<close>

definition savefig_formats :: "string list" where
  "savefig_formats =
     [''eps'', ''jpeg'', ''jpg'', ''pdf'', ''pgf'', ''png'', ''ps'', ''raw'', ''rgba'',
      ''svg'', ''svgz'', ''tif'', ''tiff'', ''webp'']"

definition plt_savefig :: "string \<Rightarrow> py_exception + string" where
  "plt_savefig fname =
     (let format = drop 1 (snd (splitext fname))
      in if format = '''' then Inr (rstrip fname (CHR ''.'') @ ''.'' @ ''png'')
         else if lower format \<in> set savefig_formats then Inr fname
         else Inl (Exception ''ValueError''))"

definition plot_data ::
  "(string list \<Rightarrow> string list) \<Rightarrow> 'v Colors \<Rightarrow> (string \<times> ('f \<times> 'f) list) list \<Rightarrow> string \<Rightarrow> string
     \<Rightarrow> py_exception + ('f, 'v) figure" where
  "plot_data set_iter cc data_series legend_position output =
     (case map_raise (plot_series cc) data_series of
        Inl e \<Rightarrow> Inl e
      | Inr lines \<Rightarrow>
          (case make_legend set_iter cc data_series legend_position of
             Inl e \<Rightarrow> Inl e
           | Inr lg \<Rightarrow>
               (let fig = \<lparr>xlim = (x_min, x_max), ylim = (y_min, y_max), plotted = lines,
                           legend = lg, xlabel = x_axis_label, ylabel = y_axis_label,
                           savefig = None\<rparr>
                in if output \<noteq> '''' then
                     (case plt_savefig output of
                        Inl e \<Rightarrow> Inl e
                      | Inr written \<Rightarrow> Inr (fig\<lparr>savefig := Some written\<rparr>))
                   else Inr fig)))"

definition do_plot ::
  "'f env \<Rightarrow> (string list \<Rightarrow> string list) \<Rightarrow> 'v Colors \<Rightarrow> string \<Rightarrow> string \<Rightarrow> string
     \<Rightarrow> py_exception + ('f, 'v) figure" where
  "do_plot env set_iter cc input legend_position output =
     (case read_file env input of
        Inl e \<Rightarrow> Inl e
      | Inr data \<Rightarrow> plot_data set_iter cc (make_series data) legend_position output)"

section \<open>The form\<close>

record View =
  selected_file :: string
  output_file :: string
  input_dialog :: string
  output_dialog :: string
  working_dir :: string
  legend_position :: string

definition View_init :: "string \<Rightarrow> View" where
  "View_init cwd =
     \<lparr>selected_file = '''', output_file = '''',
      input_dialog = ''You haven'' @ [CHR 0x27] @ ''t selected an input file'',
      output_dialog = ''You haven'' @ [CHR 0x27] @ ''t named an output file'',
      working_dir = cwd, legend_position = ''Best''\<rparr>"

text \<open>
  What one run of the \<open>plot\<close> callback does to the outside: the figure shown, the
  messages passed to \<open>showerror\<close>, and what is printed.
\<close>

record 'r plot_effects =
  shown :: "'r option"
  showerror :: "string list"
  printed :: "string list"

definition unexpected_message :: string where
  "unexpected_message =
     ''Something unexpected went wrong, make sure your input file is formated correctly''"

text \<open>
  \<open>View.plot\<close> around any pipeline: the clause \<open>except PlottingError\<close> comes first, the
  clause \<open>except Exception\<close> second; an exception that matches neither leaves the method.
\<close>

definition View_plot_with ::
  "(string \<Rightarrow> string \<Rightarrow> string \<Rightarrow> py_exception + 'r) \<Rightarrow> View \<Rightarrow> py_exception + 'r plot_effects" where
  "View_plot_with pipeline self =
     (let position = lower (legend_position self)
      in case pipeline (selected_file self) position (output_file self) of
           Inr r \<Rightarrow> Inr \<lparr>shown = Some r, showerror = [], printed = []\<rparr>
         | Inl (PlottingError message) \<Rightarrow>
             Inr \<lparr>shown = None, showerror = [message], printed = []\<rparr>
         | Inl (Exception err) \<Rightarrow>
             Inr \<lparr>shown = None, showerror = [unexpected_message], printed = [err]\<rparr>
         | Inl (BaseException err) \<Rightarrow> Inl (BaseException err))"

definition View_plot ::
  "'f env \<Rightarrow> (string list \<Rightarrow> string list) \<Rightarrow> 'v Colors \<Rightarrow> View
     \<Rightarrow> py_exception + ('f, 'v) figure plot_effects" where
  "View_plot env set_iter cc self = View_plot_with (do_plot env set_iter cc) self"

text \<open>The two file pickers; \<open>path\<close> is what the dialog returns.\<close>

definition select_input_file :: "View \<Rightarrow> string \<Rightarrow> View" where
  "select_input_file self path =
     self\<lparr>selected_file := path,
          working_dir := dirname path,
          input_dialog :=
            (if path \<noteq> '''' then ''You'' @ [CHR 0x27] @ ''ve selected: '' @ path
             else ''You haven'' @ [CHR 0x27] @ ''t selected an input file'')\<rparr>"

definition select_output_file :: "View \<Rightarrow> string \<Rightarrow> View" where
  "select_output_file self path =
     (let path' = fst (splitext path)
      in self\<lparr>working_dir := dirname path,
              output_file := path',
              output_dialog :=
                (if path' \<noteq> '''' then ''Plot will be saved to: '' @ path' @ ''.png''
                 else ''You haven'' @ [CHR 0x27] @ ''t named an output file'')\<rparr>)"

section \<open>Sample inputs\<close>

text \<open>
  The builtin \<open>float\<close> restricted to non-empty strings of decimal digits, where its value
  is the number the digits spell; every other string is rejected here.
\<close>

definition float_of_digits :: "string \<Rightarrow> real option" where
  "float_of_digits s =
     (if s \<noteq> [] \<and> list_all (\<lambda>c. 48 \<le> (of_char c :: nat) \<and> (of_char c :: nat) \<le> 57) s
      then Some (real (fold (\<lambda>c n. 10 * n + ((of_char c :: nat) - 48)) s 0))
      else None)"

definition sample_header :: "string list" where
  "sample_header = [''distance'', ''elevation'', ''code'']"

text \<open>
  A file system with two delimited-text files: \<open>good.csv\<close> has three well-formed data
  rows, \<open>bad.csv\<close> has a second data row whose elevation is not a number.
\<close>

definition sample_env :: "real env" where
  "sample_env =
     \<lparr>float_of = float_of_digits,
      open_csv = (\<lambda>filename.
        if filename = ''good.csv'' then
          Inr [sample_header, [''0'', ''120'', ''Q7u''], [''10'', ''125'', ''Q7u''], [''20'', ''130'', ''Q9w'']]
        else if filename = ''bad.csv'' then
          Inr [sample_header, [''0'', ''120'', ''Q7u''], [''10'', ''abc'', ''Q7u'']]
        else Inl (Exception ''FileNotFoundError'')),
      open_xls = (\<lambda>filename. Inl (Exception ''FileNotFoundError''))\<rparr>"

section \<open>Reading files\<close>


lemma map_raise_InlD:
  "map_raise f xs = Inl e \<Longrightarrow> \<exists>x \<in> set xs. f x = Inl e"
  by (induction xs) (auto split: sum.splits)

lemma map_raise_Inl:
  "x \<in> set xs \<Longrightarrow> f x = Inl e \<Longrightarrow> \<exists>e'. map_raise f xs = Inl e'"
  by (induction xs) (auto split: sum.splits)

lemma read_file_csv_raises:
  "read_file_csv env filename = Inl e \<Longrightarrow> e = PlottingError (''Could not read file: '' @ filename)"
  by (auto simp: read_file_csv_def try_except_def split: sum.splits)

lemma read_file_raises:
  "read_file env filename = Inl e \<Longrightarrow> e = PlottingError (''Could not read file: '' @ filename)"
  by (auto simp: read_file_def try_except_def Let_def split: sum.splits if_splits)

lemma read_file_csv_extension:
  "snd (splitext filename) = ''.csv'' \<Longrightarrow> read_file env filename = read_file_csv env filename"
  by (cases "read_file_csv env filename")
     (auto simp: read_file_def try_except_def dest: read_file_csv_raises)

lemma splitext_data_txt: "splitext ''data.txt'' = (''data'', ''.txt'')"
  by (simp add: splitext_def rfind_def slice_to_def slice_from_def)

lemma splitext_good_csv: "splitext ''good.csv'' = (''good'', ''.csv'')"
  by (simp add: splitext_def rfind_def slice_to_def slice_from_def)

lemma splitext_bad_csv: "splitext ''bad.csv'' = (''bad'', ''.csv'')"
  by (simp add: splitext_def rfind_def slice_to_def slice_from_def)

text \<open>
  Whatever the extension, if it is neither \<open>.csv\<close> nor \<open>.xls\<close> the error that leaves
  \<open>read_file\<close> is the one of the bare \<open>except\<close> clause: the unsupported-filetype error
  raised inside the \<open>try\<close> block is caught by it and replaced.
\<close>

lemma read_file_unsupported:
  "snd (splitext filename) \<noteq> ''.csv'' \<Longrightarrow> snd (splitext filename) \<noteq> ''.xls'' \<Longrightarrow>
   read_file env filename = Inl (PlottingError (''Could not read file: '' @ filename))"
  by (simp add: read_file_def try_except_def Let_def)

text \<open>
  C1. The claim is that a path with an unsupported extension such as \<open>.txt\<close> fails with
  the "filetype not supported" error and not with the generic "could not read file"
  error. On \<open>data.txt\<close> the function returns the generic error, in every environment,
  and does not return the unsupported-filetype error.
\<close>

theorem read_file_txt_generic_error:
  "read_file env ''data.txt'' = Inl (PlottingError ''Could not read file: data.txt'')
   \<and> read_file env ''data.txt'' \<noteq> Inl (PlottingError ''Filetype: .txt is not supported'')"
  by (simp add: read_file_def try_except_def splitext_data_txt)

lemma map_raise_convert_row_valid:
  "\<forall>row \<in> set rows. \<exists>x y code a b. row = [x, y, code] \<and> pf x = Some a \<and> pf y = Some b \<Longrightarrow>
   \<exists>points. map_raise (convert_row pf) rows = Inr points \<and>
     list_all2 (\<lambda>row point. \<exists>x y code a b. row = [x, y, code] \<and> pf x = Some a \<and> pf y = Some b
                  \<and> point = (a, b, code)) rows points"
proof (induction rows)
  case Nil
  then show ?case by simp
next
  case (Cons row rows)
  then obtain points where ps: "map_raise (convert_row pf) rows = Inr points"
    "list_all2 (\<lambda>row point. \<exists>x y code a b. row = [x, y, code] \<and> pf x = Some a \<and> pf y = Some b
                  \<and> point = (a, b, code)) rows points"
    by auto
  from Cons.prems obtain x y code a b where r: "row = [x, y, code]" "pf x = Some a" "pf y = Some b"
    by auto
  then have "convert_row pf row = Inr (a, b, code)" by simp
  with ps r show ?case by auto
qed

lemma convert_row_malformed:
  "length row \<noteq> 3 \<or> pf (row ! 0) = None \<or> pf (row ! 1) = None \<Longrightarrow> \<exists>e. convert_row pf row = Inl e"
  by (cases "(pf, row)" rule: convert_row.cases) (auto split: option.splits)

text \<open>
  C5. When the file opens and holds a header row followed by data rows that all have
  exactly three fields, the first two accepted by \<open>float\<close>, the delimited-text reader
  returns one coded point per data row, in file order: the point of a row \<open>[x, y, code]\<close>
  is \<open>(float x, float y, code)\<close>, the code unchanged. Under the extension \<open>.csv\<close>
  \<open>read_file\<close> returns the same points.
\<close>

theorem read_file_csv_valid:
  assumes "open_csv env filename = Inr (header # rows)"
      and "\<forall>row \<in> set rows. \<exists>x y code a b.
             row = [x, y, code] \<and> float_of env x = Some a \<and> float_of env y = Some b"
  shows "\<exists>points.
           read_file_csv env filename = Inr points
         \<and> length points = length rows
         \<and> list_all2 (\<lambda>row point. \<exists>x y code a b.
               row = [x, y, code] \<and> float_of env x = Some a \<and> float_of env y = Some b
             \<and> point = (a, b, code)) rows points
         \<and> (snd (splitext filename) = ''.csv'' \<longrightarrow> read_file env filename = Inr points)"
proof -
  from map_raise_convert_row_valid [OF assms(2)] obtain points where
    ps: "map_raise (convert_row (float_of env)) rows = Inr points"
        "list_all2 (\<lambda>row point. \<exists>x y code a b.
               row = [x, y, code] \<and> float_of env x = Some a \<and> float_of env y = Some b
             \<and> point = (a, b, code)) rows points"
    by blast
  from ps(1) assms(1) have r: "read_file_csv env filename = Inr points"
    by (simp add: read_file_csv_def try_except_def)
  from ps(2) have "length points = length rows"
    by (simp add: list_all2_lengthD)
  with r ps(2) show ?thesis
    by (auto simp: read_file_csv_extension)
qed

theorem read_file_csv_valid_witness:
  "open_csv sample_env ''good.csv'' =
     Inr (sample_header # [[''0'', ''120'', ''Q7u''], [''10'', ''125'', ''Q7u''], [''20'', ''130'', ''Q9w'']])
   \<and> snd (splitext ''good.csv'') = ''.csv''
   \<and> read_file_csv sample_env ''good.csv'' = Inr [(0, 120, ''Q7u''), (10, 125, ''Q7u''), (20, 130, ''Q9w'')]
   \<and> read_file sample_env ''good.csv'' = Inr [(0, 120, ''Q7u''), (10, 125, ''Q7u''), (20, 130, ''Q9w'')]"
proof -
  let ?rows = "[[''0'', ''120'', ''Q7u''], [''10'', ''125'', ''Q7u''], [''20'', ''130'', ''Q9w'']]"
  have h1: "open_csv sample_env ''good.csv'' = Inr (sample_header # ?rows)"
    by (simp add: sample_env_def)
  have h2: "\<forall>row \<in> set ?rows. \<exists>x y code a b.
             row = [x, y, code] \<and> float_of sample_env x = Some a \<and> float_of sample_env y = Some b"
    by (simp add: sample_env_def float_of_digits_def)
  have h3: "snd (splitext ''good.csv'') = ''.csv''"
    by (simp add: splitext_good_csv)
  from read_file_csv_valid [OF h1 h2] obtain points where
    ps: "read_file_csv sample_env ''good.csv'' = Inr points"
        "list_all2 (\<lambda>row point. \<exists>x y code a b.
               row = [x, y, code] \<and> float_of sample_env x = Some a \<and> float_of sample_env y = Some b
             \<and> point = (a, b, code)) ?rows points"
        "snd (splitext ''good.csv'') = ''.csv'' \<longrightarrow> read_file sample_env ''good.csv'' = Inr points"
    by blast
  from ps(2) have "points = [(0, 120, ''Q7u''), (10, 125, ''Q7u''), (20, 130, ''Q9w'')]"
    by (auto simp: list_all2_Cons1 sample_env_def float_of_digits_def)
  with ps(1,3) h1 h3 show ?thesis by simp
qed

text \<open>
  C6. When the file opens and one of its data rows (any row after the first) is
  malformed, that is, it does not have exactly three fields or one of its first two
  fields is rejected by \<open>float\<close>, the delimited-text reader returns the generic
  "could not read file" error and no points; under the extension \<open>.csv\<close> so does
  \<open>read_file\<close>.
\<close>

theorem read_file_csv_malformed_row:
  assumes "open_csv env filename = Inr data"
      and "row \<in> set (drop 1 data)"
      and "length row \<noteq> 3 \<or> float_of env (row ! 0) = None \<or> float_of env (row ! 1) = None"
  shows "read_file_csv env filename = Inl (PlottingError (''Could not read file: '' @ filename))
       \<and> (snd (splitext filename) = ''.csv'' \<longrightarrow>
            read_file env filename = Inl (PlottingError (''Could not read file: '' @ filename)))"
proof -
  from convert_row_malformed [OF assms(3)] obtain e where
    "convert_row (float_of env) row = Inl e" ..
  with assms(2) obtain e' where
    "map_raise (convert_row (float_of env)) (drop 1 data) = Inl e'"
    using map_raise_Inl [of row "drop 1 data" "convert_row (float_of env)" e] by blast
  with assms(1) have
    "read_file_csv env filename = Inl (PlottingError (''Could not read file: '' @ filename))"
    by (simp add: read_file_csv_def try_except_def)
  then show ?thesis
    by (simp add: read_file_csv_extension)
qed

theorem read_file_csv_malformed_row_witness:
  "open_csv sample_env ''bad.csv'' =
     Inr [sample_header, [''0'', ''120'', ''Q7u''], [''10'', ''abc'', ''Q7u'']]
   \<and> [''10'', ''abc'', ''Q7u''] \<in> set (drop 1 [sample_header, [''0'', ''120'', ''Q7u''], [''10'', ''abc'', ''Q7u'']])
   \<and> float_of sample_env ([''10'', ''abc'', ''Q7u''] ! 1) = None
   \<and> snd (splitext ''bad.csv'') = ''.csv''
   \<and> read_file_csv sample_env ''bad.csv'' = Inl (PlottingError ''Could not read file: bad.csv'')
   \<and> read_file sample_env ''bad.csv'' = Inl (PlottingError ''Could not read file: bad.csv'')"
proof -
  have h1: "open_csv sample_env ''bad.csv'' =
     Inr [sample_header, [''0'', ''120'', ''Q7u''], [''10'', ''abc'', ''Q7u'']]"
    by (simp add: sample_env_def)
  have h2: "[''10'', ''abc'', ''Q7u'']
              \<in> set (drop 1 [sample_header, [''0'', ''120'', ''Q7u''], [''10'', ''abc'', ''Q7u'']])"
    by simp
  have h3: "float_of sample_env ([''10'', ''abc'', ''Q7u''] ! 1) = None"
    by (simp add: sample_env_def float_of_digits_def)
  then have h3': "length [''10'', ''abc'', ''Q7u''] \<noteq> 3
      \<or> float_of sample_env ([''10'', ''abc'', ''Q7u''] ! 0) = None
      \<or> float_of sample_env ([''10'', ''abc'', ''Q7u''] ! 1) = None"
    by blast
  have h4: "snd (splitext ''bad.csv'') = ''.csv''"
    by (simp add: splitext_bad_csv)
  from read_file_csv_malformed_row [OF h1 h2 h3'] h1 h2 h3 h4 show ?thesis
    by simp
qed

section \<open>Building series\<close>

lemma concat_groupby: "concat (map snd (groupby key xs)) = xs"
  by (induction key xs rule: groupby.induct) simp_all

lemma groupby_nonempty: "g \<in> set (groupby key xs) \<Longrightarrow> snd g \<noteq> []"
  by (induction key xs rule: groupby.induct) auto

lemma num_runs_dropWhile:
  "num_runs (key x # map key xs) = Suc (num_runs (map key (dropWhile (\<lambda>y. key y = key x) xs)))"
  by (induction xs) auto

lemma length_groupby: "length (groupby key xs) = num_runs (map key xs)"
  by (induction key xs rule: groupby.induct)
     (simp_all add: num_runs_dropWhile del: num_runs.simps(3))

text \<open>
  The count of runs agrees with the library's removal of adjacent duplicates, and the
  keys of the groups are the input's keys with adjacent duplicates removed.
\<close>

lemma num_runs_remdups_adj: "num_runs cs = length (remdups_adj cs)"
  by (induction cs rule: num_runs.induct) auto

lemma remdups_adj_dropWhile:
  "remdups_adj (key x # map key xs) = key x # remdups_adj (map key (dropWhile (\<lambda>y. key y = key x) xs))"
  by (induction xs) auto

lemma groupby_keys: "map fst (groupby key xs) = remdups_adj (map key xs)"
  by (induction key xs rule: groupby.induct)
     (simp_all add: remdups_adj_dropWhile del: remdups_adj.simps(3))

lemma groupby_same_key:
  "(k, grp) \<in> set (groupby key xs) \<Longrightarrow> x \<in> set grp \<Longrightarrow> key x = k"
proof (induction key xs rule: groupby.induct)
  case (1 key)
  then show ?case by simp
next
  case (2 key y ys)
  from "2.prems"(1) consider
    (head) "k = key y" "grp = y # takeWhile (\<lambda>z. key z = key y) ys"
    | (rest) "(k, grp) \<in> set (groupby key (dropWhile (\<lambda>z. key z = key y) ys))"
    by auto
  then show ?case
  proof cases
    case head
    with "2.prems"(2) have "x = y \<or> x \<in> set (takeWhile (\<lambda>z. key z = key y) ys)"
      by simp
    with head(1) show ?thesis
      by (metis set_takeWhileD)
  next
    case rest
    with "2.IH" "2.prems"(2) show ?thesis by blast
  qed
qed

lemma concat_drop_code:
  "concat (map snd (map (\<lambda>(code, grp). (code, map f grp)) gs)) = map f (concat (map snd gs))"
  by (induction gs) auto

text \<open>
  C3. For every list of coded points, the point lists of the series returned by
  \<open>make_series\<close>, concatenated in output order, are the input's (distance, elevation)
  pairs in their original order, and the number of series is the number of maximal runs
  of adjacent points with equal codes.
\<close>

theorem make_series_concat_and_count:
  "concat (map snd (make_series data)) = map (\<lambda>(x, y, code). (x, y)) data
   \<and> length (make_series data) = num_runs (map (\<lambda>(x, y, code). code) data)"
  unfolding make_series_def
  by (simp only: concat_drop_code concat_groupby length_map length_groupby simp_thms)

text \<open>
  C4. Grouping is by adjacency: on \<open>[(0,0,"A"), (1,1,"A"), (2,2,"B"), (3,3,"A")]\<close>
  \<open>make_series\<close> returns the three series \<open>("A", [(0,0), (1,1)])\<close>, \<open>("B", [(2,2)])\<close>,
  \<open>("A", [(3,3)])\<close>, in that order.
\<close>

theorem make_series_adjacent_runs:
  "make_series [(0 :: real, 0 :: real, ''A''), (1, 1, ''A''), (2, 2, ''B''), (3, 3, ''A'')]
   = [(''A'', [(0, 0), (1, 1)]), (''B'', [(2, 2)]), (''A'', [(3, 3)])]"
  by (simp add: make_series_def)

lemma make_series_nonempty: "s \<in> set (make_series data) \<Longrightarrow> snd s \<noteq> []"
  by (auto simp: make_series_def dest: groupby_nonempty)

lemma Colors_getitem_raises:
  "Colors_getitem cc code = Inl e \<Longrightarrow> e = PlottingError (Colors_error_message code)"
  by (auto simp: Colors_getitem_def try_except_def Colors_error_def split: sum.splits)

lemma Colors_index_raises:
  "Colors_index cc code = Inl e \<Longrightarrow> e = PlottingError (Colors_error_message code)"
  by (auto simp: Colors_index_def try_except_def Colors_error_def split: sum.splits)

text \<open>
  C10. Every series returned by \<open>make_series\<close> holds at least one point. So the
  unpacking of its points into an x-list and a y-list in \<open>plot_series\<close> succeeds, and
  \<open>plot_series\<close> on such a series fails only if the colour lookup does.
\<close>

theorem make_series_series_nonempty:
  "s \<in> set (make_series data) \<Longrightarrow>
     snd s \<noteq> []
   \<and> unzip_points (snd s) = Inr (map fst (snd s), map snd (snd s))
   \<and> plot_series cc s =
       (case Colors_getitem cc (fst s) of
          Inl e \<Rightarrow> Inl e
        | Inr col \<Rightarrow> Inr \<lparr>x_data = map fst (snd s), y_data = map snd (snd s), color = col\<rparr>)"
  by (cases s) (auto simp: plot_series_def unzip_points_def dest: make_series_nonempty split: sum.splits)

theorem make_series_series_nonempty_witness:
  "(''B'', [(2 :: real, 2 :: real)])
     \<in> set (make_series [(0, 0, ''A''), (1, 1, ''A''), (2, 2, ''B''), (3, 3, ''A'')])
   \<and> snd (''B'', [(2 :: real, 2 :: real)]) \<noteq> []
   \<and> unzip_points (snd (''B'', [(2 :: real, 2 :: real)])) = Inr ([2], [2])"
proof -
  have h: "(''B'', [(2 :: real, 2 :: real)])
     \<in> set (make_series [(0, 0, ''A''), (1, 1, ''A''), (2, 2, ''B''), (3, 3, ''A'')])"
    by (simp add: make_series_def)
  from make_series_series_nonempty [OF h, where cc = code_colors] h show ?thesis
    by simp
qed

section \<open>The colour registry\<close>


lemma map_of_od_setitem: "map_of (od_setitem d k v) = (map_of d)(k \<mapsto> v)"
  by (induction d k v rule: od_setitem.induct) auto

lemma od_setitem_keys: "fst ` set (od_setitem d k v) = insert k (fst ` set d)"
  by (induction d k v rule: od_setitem.induct) auto

lemma fold_od_setitem_keys:
  "fst ` set (fold (\<lambda>(k, v) d. od_setitem d k v) colors d) = fst ` set d \<union> fst ` set colors"
proof (induction colors arbitrary: d)
  case Nil
  then show ?case by simp
next
  case (Cons kv colors)
  obtain k v where kv: "kv = (k, v)" by (cases kv)
  with Cons.IH [of "od_setitem d k v"] show ?case
    by (auto simp: od_setitem_keys)
qed


lemma OrderedDict_keys: "fst ` set (OrderedDict colors) = fst ` set colors"
  by (simp add: OrderedDict_def fold_od_setitem_keys)


lemma fold_od_setitem_subset:
  "set (fold (\<lambda>(k, v) d. od_setitem d k v) colors d) \<subseteq> set d \<union> set colors"
proof (induction colors arbitrary: d)
  case Nil
  then show ?case by simp
next
  case (Cons kv colors)
  obtain k v where kv: "kv = (k, v)" by (cases kv)
  have "set (od_setitem d k v) \<subseteq> insert (k, v) (set d)"
    by (induction d k v rule: od_setitem.induct) auto
  with Cons.IH [of "od_setitem d k v"] kv show ?case by auto
qed

lemma OrderedDict_subset: "set (OrderedDict colors) \<subseteq> set colors"
  using fold_od_setitem_subset [of colors "[]"] by (simp add: OrderedDict_def)

lemma Colors_init_colors: "Colors_colors (Colors_init colors) = OrderedDict colors"
  by (simp add: Colors_init_def Let_def)

lemma Colors_init_keys: "Colors_keys (Colors_init colors) = map fst (OrderedDict colors)"
  by (simp add: Colors_init_def Let_def)

lemma tuple_index_Inl: "x \<notin> set ys \<Longrightarrow> tuple_index ys x = Inl (Exception ''ValueError'')"
  by (induction ys) auto

lemma tuple_index_Inr:
  "x \<in> set ys \<Longrightarrow> \<exists>i. tuple_index ys x = Inr i \<and> i < length ys \<and> ys ! i = x"
  by (induction ys) auto

lemma Colors_getitem_unknown:
  "code \<notin> fst ` set colors \<Longrightarrow>
   Colors_getitem (Colors_init colors) code = Inl (PlottingError (Colors_error_message code))"
proof -
  assume "code \<notin> fst ` set colors"
  then have "map_of (OrderedDict colors) code = None"
    by (simp add: map_of_eq_None_iff OrderedDict_keys)
  then show ?thesis
    by (simp add: Colors_getitem_def Colors_init_colors dict_getitem_def try_except_def Colors_error_def)
qed

lemma Colors_index_unknown:
  "code \<notin> fst ` set colors \<Longrightarrow>
   Colors_index (Colors_init colors) code = Inl (PlottingError (Colors_error_message code))"
proof -
  assume "code \<notin> fst ` set colors"
  then have "code \<notin> set (map fst (OrderedDict colors))"
    by (simp add: OrderedDict_keys)
  then have "tuple_index (map fst (OrderedDict colors)) code = Inl (Exception ''ValueError'')"
    by (rule tuple_index_Inl)
  then show ?thesis
    by (simp add: Colors_index_def Colors_init_keys try_except_def Colors_error_def)
qed

lemma Colors_getitem_known:
  assumes "code \<in> fst ` set colors"
  shows "\<exists>v. Colors_getitem (Colors_init colors) code = Inr v \<and> (code, v) \<in> set colors"
proof -
  from assms have "code \<in> fst ` set (OrderedDict colors)"
    by (simp add: OrderedDict_keys)
  then obtain v where v: "map_of (OrderedDict colors) code = Some v"
    by (cases "map_of (OrderedDict colors) code") (auto simp: map_of_eq_None_iff)
  then have "(code, v) \<in> set (OrderedDict colors)"
    by (rule map_of_SomeD)
  with OrderedDict_subset have "(code, v) \<in> set colors" by blast
  with v show ?thesis
    by (auto simp: Colors_getitem_def Colors_init_colors dict_getitem_def try_except_def)
qed

lemma Colors_index_known:
  assumes "code \<in> fst ` set colors"
  shows "\<exists>i. Colors_index (Colors_init colors) code = Inr i
           \<and> i < length (Colors_keys (Colors_init colors))
           \<and> Colors_keys (Colors_init colors) ! i = code"
proof -
  from assms have "code \<in> set (map fst (OrderedDict colors))"
    by (simp add: OrderedDict_keys)
  from tuple_index_Inr [OF this] show ?thesis
    by (auto simp: Colors_index_def Colors_init_keys try_except_def)
qed

text \<open>
  C7. For a code that the configuration does not hold, the colour lookup and the rank
  lookup both fail with the domain error whose message names that code and says to add
  it to \<open>code_colors\<close>. For a configured code both succeed: the colour is one the
  configuration gives for the code, the rank is a position of the code among the keys.
\<close>

theorem Colors_lookup:
  "(code \<notin> fst ` set colors \<longrightarrow>
      Colors_getitem (Colors_init colors) code =
        Inl (PlottingError (''Could not find code: '' @ code
               @ '', you may need to add it to '' @ [CHR 0x27] @ ''code_colors'' @ [CHR 0x27]))
    \<and> Colors_index (Colors_init colors) code =
        Inl (PlottingError (''Could not find code: '' @ code
               @ '', you may need to add it to '' @ [CHR 0x27] @ ''code_colors'' @ [CHR 0x27])))
   \<and> (code \<in> fst ` set colors \<longrightarrow>
        (\<exists>v. Colors_getitem (Colors_init colors) code = Inr v \<and> (code, v) \<in> set colors)
      \<and> (\<exists>i. Colors_index (Colors_init colors) code = Inr i
              \<and> i < length (Colors_keys (Colors_init colors))
              \<and> Colors_keys (Colors_init colors) ! i = code))"
  using Colors_getitem_unknown [of code colors] Colors_index_unknown [of code colors]
    Colors_getitem_known [of code colors] Colors_index_known [of code colors]
  by (simp add: Colors_error_message_def)


theorem Colors_lookup_witness:
  "''Q8i'' \<in> fst ` set [(''Q7u'', 1 :: nat), (''Q8i'', 2)]
   \<and> ''zzz'' \<notin> fst ` set [(''Q7u'', 1 :: nat), (''Q8i'', 2)]
   \<and> (\<exists>v. Colors_getitem (Colors_init [(''Q7u'', 1 :: nat), (''Q8i'', 2)]) ''Q8i'' = Inr v
          \<and> (''Q8i'', v) \<in> set [(''Q7u'', 1 :: nat), (''Q8i'', 2)])
   \<and> (\<exists>i. Colors_index (Colors_init [(''Q7u'', 1 :: nat), (''Q8i'', 2)]) ''Q8i'' = Inr i
          \<and> i < length (Colors_keys (Colors_init [(''Q7u'', 1 :: nat), (''Q8i'', 2)]))
          \<and> Colors_keys (Colors_init [(''Q7u'', 1 :: nat), (''Q8i'', 2)]) ! i = ''Q8i'')
   \<and> Colors_getitem (Colors_init [(''Q7u'', 1 :: nat), (''Q8i'', 2)]) ''zzz''
       = Inl (PlottingError (''Could not find code: '' @ ''zzz'' @ '', you may need to add it to ''
                @ [CHR 0x27] @ ''code_colors'' @ [CHR 0x27]))
   \<and> Colors_index (Colors_init [(''Q7u'', 1 :: nat), (''Q8i'', 2)]) ''zzz''
       = Inl (PlottingError (''Could not find code: '' @ ''zzz'' @ '', you may need to add it to ''
                @ [CHR 0x27] @ ''code_colors'' @ [CHR 0x27]))"
proof -
  have known: "''Q8i'' \<in> fst ` set [(''Q7u'', 1 :: nat), (''Q8i'', 2)]"
    by simp
  have unknown: "''zzz'' \<notin> fst ` set [(''Q7u'', 1 :: nat), (''Q8i'', 2)]"
    by simp
  note k = Colors_lookup [of "''Q8i''" "[(''Q7u'', 1 :: nat), (''Q8i'', 2)]",
                          THEN conjunct2, THEN mp, OF known]
  note u = Colors_lookup [of "''zzz''" "[(''Q7u'', 1 :: nat), (''Q8i'', 2)]",
                          THEN conjunct1, THEN mp, OF unknown]
  show ?thesis
    by (intro conjI known unknown k [THEN conjunct1] k [THEN conjunct2]
          u [THEN conjunct1] u [THEN conjunct2])
qed

section \<open>The legend\<close>















section \<open>The form\<close>

lemma plot_series_raises:
  "plot_series cc series = Inl e \<Longrightarrow> \<forall>d. e \<noteq> BaseException d"
  by (cases series)
     (auto simp: plot_series_def unzip_points_def split: sum.splits if_splits
           dest: Colors_getitem_raises)

lemma make_legend_raises:
  assumes "make_legend set_iter cc data_series location = Inl e"
  shows "\<forall>d. e \<noteq> BaseException d"
proof -
  from assms consider
    (rank) "map_raise (Colors_index cc) (set_iter (map fst data_series)) = Inl e"
    | (col) ls where "map_raise (Colors_getitem cc) ls = Inl e"
    by (auto simp: make_legend_def sorted_by_key_def Let_def split: sum.splits)
  then show ?thesis
  proof cases
    case rank
    from map_raise_InlD [OF this] obtain code where "Colors_index cc code = Inl e"
      by blast
    then show ?thesis by (auto dest: Colors_index_raises)
  next
    case col
    from map_raise_InlD [OF this] obtain code where "Colors_getitem cc code = Inl e"
      by blast
    then show ?thesis by (auto dest: Colors_getitem_raises)
  qed
qed

lemma plot_data_raises:
  assumes "plot_data set_iter cc data_series position output = Inl e"
  shows "\<forall>d. e \<noteq> BaseException d"
proof -
  from assms consider
    (line) "map_raise (plot_series cc) data_series = Inl e"
    | (lgd) "make_legend set_iter cc data_series position = Inl e"
    | (save) "plt_savefig output = Inl e"
    by (auto simp: plot_data_def Let_def split: sum.splits if_splits)
  then show ?thesis
  proof cases
    case line
    from map_raise_InlD [OF this] obtain s where
      "s \<in> set data_series" "plot_series cc s = Inl e"
      by blast
    then show ?thesis by (intro plot_series_raises)
  next
    case lgd
    then show ?thesis by (rule make_legend_raises)
  next
    case save
    then show ?thesis
      by (auto simp: plt_savefig_def Let_def split: if_splits)
  qed
qed

text \<open>
  What \<open>plot_data\<close> records as saved is what \<open>plt.savefig\<close> wrote for the output path
  as it was passed in; \<open>plot_data\<close> appends nothing to the path itself.
\<close>

lemma plot_data_savefig:
  "plot_data set_iter cc data_series position output = Inr fig \<Longrightarrow>
   (if output \<noteq> '''' then Inr (savefig fig) = map_sum id Some (plt_savefig output)
    else savefig fig = None)"
  by (auto simp: plot_data_def Let_def split: sum.splits if_splits)

text \<open>
  An output path without an extension is written with \<open>.png\<close> appended by the library.
\<close>

lemma plt_savefig_no_extension:
  "snd (splitext fname) = '''' \<Longrightarrow>
   plt_savefig fname = Inr (rstrip fname (CHR ''.'') @ ''.png'')"
  by (simp add: plt_savefig_def)

text \<open>
  The embedded pipeline raises the domain error or an instance of \<open>Exception\<close> only.
\<close>

lemma do_plot_raises:
  assumes "do_plot env set_iter cc input position output = Inl e"
  shows "\<forall>d. e \<noteq> BaseException d"
proof (cases "read_file env input")
  case (Inl e')
  with assms have "e = e'" by (simp add: do_plot_def)
  with Inl show ?thesis by (auto dest: read_file_raises)
next
  case (Inr data)
  with assms have "plot_data set_iter cc (make_series data) position output = Inl e"
    by (simp add: do_plot_def)
  then show ?thesis by (rule plot_data_raises)
qed

lemma View_plot_returns: "\<exists>fx. View_plot env set_iter cc self = Inr fx"
proof (cases "do_plot env set_iter cc (selected_file self) (lower (legend_position self)) (output_file self)")
  case (Inl e)
  from do_plot_raises [OF this] Inl show ?thesis
    by (cases e) (simp_all add: View_plot_def View_plot_with_def Let_def)
next
  case (Inr fig)
  then show ?thesis
    by (simp add: View_plot_def View_plot_with_def Let_def)
qed

lemma splitext_plot_v2_png: "splitext ''/tmp/plot.v2.png'' = (''/tmp/plot.v2'', ''.png'')"
  by (simp add: splitext_def rfind_def slice_to_def slice_from_def)

lemma splitext_notes_txt: "splitext ''notes.txt'' = (''notes'', ''.txt'')"
  by (simp add: splitext_def rfind_def slice_to_def slice_from_def)

lemma lower_Best: "lower ''Best'' = ''best''"
  by (simp add: lower_def)

lemma splitext_plot_png: "splitext ''/tmp/plot.png'' = (''/tmp/plot'', ''.png'')"
  by (simp add: splitext_def rfind_def slice_to_def slice_from_def)

lemma splitext_plot: "splitext ''/tmp/plot'' = (''/tmp/plot'', '''')"
  by (simp add: splitext_def rfind_def slice_to_def slice_from_def)

lemma splitext_plot_v2: "splitext ''/tmp/plot.v2'' = (''/tmp/plot'', ''.v2'')"
  by (simp add: splitext_def rfind_def slice_to_def slice_from_def)

lemma splitext_plot_pdf: "splitext ''/tmp/plot.pdf'' = (''/tmp/plot'', ''.pdf'')"
  by (simp add: splitext_def rfind_def slice_to_def slice_from_def)

lemma splitext_plot_pdf_png: "splitext ''/tmp/plot.pdf.png'' = (''/tmp/plot.pdf'', ''.png'')"
  by (simp add: splitext_def rfind_def slice_to_def slice_from_def)

lemma plt_savefig_plot: "plt_savefig ''/tmp/plot'' = Inr ''/tmp/plot.png''"
  by (simp add: plt_savefig_def splitext_plot rstrip_def)

lemma plt_savefig_plot_v2: "plt_savefig ''/tmp/plot.v2'' = Inl (Exception ''ValueError'')"
  by (simp add: plt_savefig_def splitext_plot_v2 lower_def savefig_formats_def)

lemma plt_savefig_plot_pdf: "plt_savefig ''/tmp/plot.pdf'' = Inr ''/tmp/plot.pdf''"
  by (simp add: plt_savefig_def splitext_plot_pdf lower_def savefig_formats_def)

text \<open>
  The sample file \<open>good.csv\<close> through the pipeline, with the configured colours: reading,
  grouping, drawing and the legend succeed, so the outcome of \<open>do_plot\<close> with an output
  path is the outcome of \<open>plt.savefig\<close> on that path.
\<close>

lemma read_file_good_csv:
  "read_file sample_env ''good.csv''
   = Inr [(0, 120, ''Q7u''), (10, 125, ''Q7u''), (20, 130, ''Q9w'')]"
  by (simp add: read_file_def read_file_csv_def try_except_def splitext_good_csv
        sample_env_def sample_header_def float_of_digits_def)

lemma make_series_good_csv:
  "make_series [(0 :: real, 120 :: real, ''Q7u''), (10, 125, ''Q7u''), (20, 130, ''Q9w'')]
   = [(''Q7u'', [(0, 120), (10, 125)]), (''Q9w'', [(20, 130)])]"
  by (simp add: make_series_def)

lemma code_colors_keys:
  "Colors_keys code_colors = [''Q1ta'', ''Q3a'', ''Q7u'', ''Q8i'', ''Q8c'', ''Q9w'', ''eQw'']"
  by (simp add: code_colors_def code_colors_table_def Colors_init_def OrderedDict_def)

lemma code_colors_codes:
  "fst ` set (map (\<lambda>(code, (r, g, b)). (code, [real r / 255, real g / 255, real b / 255]))
                  code_colors_table)
   = {''Q1ta'', ''Q3a'', ''Q7u'', ''Q8i'', ''Q8c'', ''Q9w'', ''eQw''}"
  by (simp add: code_colors_table_def)

lemma code_colors_getitem_Q7u: "\<exists>c. Colors_getitem code_colors ''Q7u'' = Inr c"
proof -
  have "''Q7u'' \<in> fst ` set (map (\<lambda>(code, (r, g, b)). (code, [real r / 255, real g / 255, real b / 255]))
                  code_colors_table)"
    unfolding code_colors_codes by simp
  from Colors_getitem_known [OF this] obtain v where
    "Colors_getitem code_colors ''Q7u'' = Inr v"
    unfolding code_colors_def by (elim exE conjE)
  then show ?thesis ..
qed

lemma code_colors_getitem_Q9w: "\<exists>c. Colors_getitem code_colors ''Q9w'' = Inr c"
proof -
  have "''Q9w'' \<in> fst ` set (map (\<lambda>(code, (r, g, b)). (code, [real r / 255, real g / 255, real b / 255]))
                  code_colors_table)"
    unfolding code_colors_codes by simp
  from Colors_getitem_known [OF this] obtain v where
    "Colors_getitem code_colors ''Q9w'' = Inr v"
    unfolding code_colors_def by (elim exE conjE)
  then show ?thesis ..
qed

lemma code_colors_index:
  "Colors_index code_colors ''Q7u'' = Inr 2"
  "Colors_index code_colors ''Q9w'' = Inr 5"
  by (simp_all add: Colors_index_def code_colors_keys try_except_def)

lemma plot_data_good_csv:
  assumes "output \<noteq> ''''"
  shows "map_sum id savefig
           (plot_data remdups code_colors
              [(''Q7u'', [(0 :: real, 120 :: real), (10, 125)]), (''Q9w'', [(20, 130)])]
              ''best'' output)
         = map_sum id Some (plt_savefig output)"
proof -
  from code_colors_getitem_Q7u obtain c1 where
    c1: "Colors_getitem code_colors ''Q7u'' = Inr c1" ..
  from code_colors_getitem_Q9w obtain c2 where
    c2: "Colors_getitem code_colors ''Q9w'' = Inr c2" ..
  note c = c1 c2
  have lines: "map_raise (plot_series code_colors)
                 [(''Q7u'', [(0 :: real, 120 :: real), (10, 125)]), (''Q9w'', [(20, 130)])]
               = Inr [\<lparr>x_data = [0, 10], y_data = [120, 125], color = c1\<rparr>,
                      \<lparr>x_data = [20], y_data = [130], color = c2\<rparr>]"
    by (simp add: plot_series_def unzip_points_def c)
  have lg: "make_legend remdups code_colors
                 [(''Q7u'', [(0 :: real, 120 :: real), (10, 125)]), (''Q9w'', [(20, 130)])] ''best''
            = Inr \<lparr>custom_lines = [c1, c2], labels = [''Q7u'', ''Q9w''], loc = ''best''\<rparr>"
    by (simp add: make_legend_def sorted_by_key_def code_colors_index c Let_def)
  show ?thesis
    unfolding plot_data_def lines lg
    using assms by (cases "plt_savefig output") (simp_all add: Let_def)
qed

lemma do_plot_good_csv:
  "output \<noteq> '''' \<Longrightarrow>
   map_sum id savefig (do_plot sample_env remdups code_colors ''good.csv'' ''best'' output)
   = map_sum id Some (plt_savefig output)"
  by (simp add: do_plot_def read_file_good_csv make_series_good_csv plot_data_good_csv)

text \<open>
  Where the chosen path has one extension, the program does what the label says: for
  \<open>/tmp/plot.png\<close> the stored path is \<open>/tmp/plot\<close> and the file written is
  \<open>/tmp/plot.png\<close>.
\<close>

lemma select_output_file_plain:
  "output_file (select_output_file self ''/tmp/plot.png'') = ''/tmp/plot''
   \<and> output_dialog (select_output_file self ''/tmp/plot.png'')
       = ''Plot will be saved to: /tmp/plot.png''
   \<and> map_sum id savefig
         (do_plot sample_env remdups code_colors ''good.csv'' ''best''
            (output_file (select_output_file self ''/tmp/plot.png'')))
       = Inr (Some ''/tmp/plot.png'')"
proof -
  have out: "output_file (select_output_file self ''/tmp/plot.png'') = ''/tmp/plot''"
    by (simp add: select_output_file_def splitext_plot_png Let_def)
  have dlg: "output_dialog (select_output_file self ''/tmp/plot.png'')
       = ''Plot will be saved to: /tmp/plot.png''"
    by (simp add: select_output_file_def splitext_plot_png Let_def)
  have sv: "map_sum id savefig
         (do_plot sample_env remdups code_colors ''good.csv'' ''best'' ''/tmp/plot'')
       = Inr (Some ''/tmp/plot.png'')"
    by (simp add: do_plot_good_csv plt_savefig_plot)
  show ?thesis
    unfolding out using dlg sv by (intro conjI refl)
qed

text \<open>
  Where the stem left after stripping carries a file type of the library, the chart is
  written in that type: for the chosen path \<open>/tmp/plot.pdf.png\<close> the label announces
  \<open>/tmp/plot.pdf.png\<close> and the file written is \<open>/tmp/plot.pdf\<close>.
\<close>

lemma select_output_file_pdf_stem:
  "output_file (select_output_file self ''/tmp/plot.pdf.png'') = ''/tmp/plot.pdf''
   \<and> output_dialog (select_output_file self ''/tmp/plot.pdf.png'')
       = ''Plot will be saved to: /tmp/plot.pdf.png''
   \<and> map_sum id savefig
         (do_plot sample_env remdups code_colors ''good.csv'' ''best''
            (output_file (select_output_file self ''/tmp/plot.pdf.png'')))
       = Inr (Some ''/tmp/plot.pdf'')
   \<and> \<not> suffix ''.png'' ''/tmp/plot.pdf''"
proof -
  have out: "output_file (select_output_file self ''/tmp/plot.pdf.png'') = ''/tmp/plot.pdf''"
    by (simp add: select_output_file_def splitext_plot_pdf_png Let_def)
  have dlg: "output_dialog (select_output_file self ''/tmp/plot.pdf.png'')
       = ''Plot will be saved to: /tmp/plot.pdf.png''"
    by (simp add: select_output_file_def splitext_plot_pdf_png Let_def)
  have sv: "map_sum id savefig
         (do_plot sample_env remdups code_colors ''good.csv'' ''best'' ''/tmp/plot.pdf'')
       = Inr (Some ''/tmp/plot.pdf'')"
    by (simp add: do_plot_good_csv plt_savefig_plot_pdf)
  have nosuf: "\<not> suffix ''.png'' ''/tmp/plot.pdf''"
    by (simp add: suffix_to_prefix)
  show ?thesis
    unfolding out using dlg sv nosuf by (intro conjI refl)
qed

text \<open>
  C2. The claim is that the path at which the chart is saved always ends in the fixed
  image extension, the form having stripped the chosen path's extension and appended
  \<open>.png\<close>. The form strips the last extension only, and appends \<open>.png\<close> in its label
  only. With the input file \<open>good.csv\<close> selected and the output path \<open>/tmp/plot.v2.png\<close>
  chosen, the form stores \<open>/tmp/plot.v2\<close> and its label announces \<open>/tmp/plot.v2.png\<close>;
  the pipeline passes the stored path to \<open>plt.savefig\<close>, which takes \<open>v2\<close> for the
  format and raises \<open>ValueError\<close>. No file is written, at the announced path or anywhere
  else, and the plot action ends in the dialog for unexpected errors.
\<close>

theorem select_output_file_dotted_stem:
  "output_file (select_output_file (select_input_file (View_init ''/home'') ''good.csv'')
                  ''/tmp/plot.v2.png'')
     = ''/tmp/plot.v2''
   \<and> output_dialog (select_output_file (select_input_file (View_init ''/home'') ''good.csv'')
                      ''/tmp/plot.v2.png'')
     = ''Plot will be saved to: /tmp/plot.v2.png''
   \<and> do_plot sample_env remdups code_colors ''good.csv'' ''best'' ''/tmp/plot.v2''
     = Inl (Exception ''ValueError'')
   \<and> View_plot sample_env remdups code_colors
         (select_output_file (select_input_file (View_init ''/home'') ''good.csv'')
            ''/tmp/plot.v2.png'')
     = Inr \<lparr>shown = None, showerror = [unexpected_message], printed = [''ValueError'']\<rparr>"
proof -
  let ?self = "select_output_file (select_input_file (View_init ''/home'') ''good.csv'')
                 ''/tmp/plot.v2.png''"
  have out: "output_file ?self = ''/tmp/plot.v2''"
    by (simp add: select_output_file_def splitext_plot_v2_png Let_def)
  have dlg: "output_dialog ?self = ''Plot will be saved to: /tmp/plot.v2.png''"
    by (simp add: select_output_file_def splitext_plot_v2_png Let_def)
  have inp: "selected_file ?self = ''good.csv''"
    by (simp add: select_output_file_def select_input_file_def Let_def)
  have pos: "lower (legend_position ?self) = ''best''"
    by (simp add: select_output_file_def select_input_file_def View_init_def Let_def lower_Best)
  have "map_sum id savefig
          (do_plot sample_env remdups code_colors ''good.csv'' ''best'' ''/tmp/plot.v2'')
        = Inl (Exception ''ValueError'')"
    by (simp add: do_plot_good_csv plt_savefig_plot_v2)
  then have fail: "do_plot sample_env remdups code_colors ''good.csv'' ''best'' ''/tmp/plot.v2''
        = Inl (Exception ''ValueError'')"
    by (cases "do_plot sample_env remdups code_colors ''good.csv'' ''best'' ''/tmp/plot.v2''")
       simp_all
  have plot: "View_plot sample_env remdups code_colors ?self
        = Inr \<lparr>shown = None, showerror = [unexpected_message], printed = [''ValueError'']\<rparr>"
    by (simp add: View_plot_def View_plot_with_def Let_def inp pos out fail)
  show ?thesis
    using out dlg fail plot by (intro conjI)
qed

text \<open>
  C9. Whatever pipeline the plot action runs, if it fails with the domain error or with
  any other instance of \<open>Exception\<close>, the action returns normally and shows nothing but
  an error dialog: the error's own message for the domain error with nothing printed,
  the generic message for any other exception with the underlying error printed.
\<close>

theorem View_plot_catches_failures:
  assumes "pipeline (selected_file self) (lower (legend_position self)) (output_file self) = Inl e"
      and "\<forall>d. e \<noteq> BaseException d"
  shows "\<exists>fx. View_plot_with pipeline self = Inr fx
             \<and> shown fx = None
             \<and> (\<forall>message. e = PlottingError message \<longrightarrow>
                   showerror fx = [message] \<and> printed fx = [])
             \<and> (\<forall>err. e = Exception err \<longrightarrow>
                   showerror fx = [unexpected_message] \<and> printed fx = [err])"
  using assms by (cases e) (simp_all add: View_plot_with_def Let_def)

theorem View_plot_catches_failures_witness:
  "do_plot sample_env remdups code_colors
      (selected_file (select_input_file (View_init ''/home'') ''notes.txt''))
      (lower (legend_position (select_input_file (View_init ''/home'') ''notes.txt'')))
      (output_file (select_input_file (View_init ''/home'') ''notes.txt''))
     = Inl (PlottingError ''Could not read file: notes.txt'')
   \<and> (\<exists>fx. View_plot_with (do_plot sample_env remdups code_colors)
               (select_input_file (View_init ''/home'') ''notes.txt'') = Inr fx
          \<and> shown fx = None
          \<and> showerror fx = [''Could not read file: notes.txt'']
          \<and> printed fx = [])"
proof -
  let ?self = "select_input_file (View_init ''/home'') ''notes.txt''"
  have sel: "selected_file ?self = ''notes.txt''"
    by (simp add: select_input_file_def)
  have "read_file sample_env ''notes.txt'' = Inl (PlottingError ''Could not read file: notes.txt'')"
    by (simp add: read_file_def try_except_def splitext_notes_txt)
  then have h1: "do_plot sample_env remdups code_colors (selected_file ?self)
                   (lower (legend_position ?self)) (output_file ?self)
                 = Inl (PlottingError ''Could not read file: notes.txt'')"
    unfolding sel by (simp add: do_plot_def)
  have h2: "\<forall>d. PlottingError ''Could not read file: notes.txt'' \<noteq> BaseException d"
    by simp
  from View_plot_catches_failures
         [of "do_plot sample_env remdups code_colors" ?self
             "PlottingError ''Could not read file: notes.txt''", OF h1 h2]
  obtain fx where
    fx: "View_plot_with (do_plot sample_env remdups code_colors) ?self = Inr fx"
        "shown fx = None"
        "\<forall>message. PlottingError ''Could not read file: notes.txt'' = PlottingError message \<longrightarrow>
           showerror fx = [message] \<and> printed fx = []"
    by (elim exE conjE)
  from fx(3) have "showerror fx = [''Could not read file: notes.txt''] \<and> printed fx = []"
    by simp
  with fx(1,2) have "\<exists>fx. View_plot_with (do_plot sample_env remdups code_colors) ?self = Inr fx
          \<and> shown fx = None
          \<and> showerror fx = [''Could not read file: notes.txt'']
          \<and> printed fx = []"
    by (intro exI [of _ fx]) simp
  with h1 show ?thesis
    by (intro conjI)
qed

end
